theory Spec2Isabelle
  imports Complex_Main
begin

section \<open>Overview\<close>

text \<open>
  The repository holds three notebooks of the PyTorch 60 minute blitz: tensors (with a
  cell that moves tensors to the GPU), neural networks (the class \<open>Net\<close>, a loss, a
  backward pass, a manual update of the weights and one step with an optimiser) and the
  CIFAR10 classifier (loading, normalising and showing images).

  The code of the notebooks is modelled as it is written: \<open>Net.__init__\<close>,
  \<open>Net.forward\<close>, \<open>Net.num_flat_features\<close>, the update loop, the training step, the
  CUDA cell and the arithmetic of \<open>imshow\<close>. The tensor library they call is not part
  of the repository. Its operations are modelled as far as the notebooks observe them:
  the sizes of the results, the history of operations a variable records, the accumulation
  of gradients and the element-wise arithmetic on parameters, over exact real numbers in
  place of floating-point numbers. The derivative computed by a backward pass is a
  parameter of the model.
\<close>

section \<open>Errors raised by Python and by the tensor library\<close>

text \<open>
  The notebooks contain no \<^verbatim>\<open>try\<close>: a failing call ends the cell with the
  exception the interpreter or the library raised. Exceptions are values here.
  \<^item> \<open>AttributeError\<close>: an attribute is looked up on \<open>None\<close> or is missing (Python);
  \<^item> \<open>RuntimeError\<close>: the library's size check refused its arguments;
  \<^item> \<open>CudaError\<close>: a transfer to the GPU was asked for on a machine without one.
\<close>

datatype error = AttributeError | RuntimeError | CudaError

text \<open>Sequencing of two calls: the second runs only when the first returned.\<close>

definition ebind :: "error + 'a \<Rightarrow> ('a \<Rightarrow> error + 'b) \<Rightarrow> error + 'b" where
  "ebind m f = (case m of Inl e \<Rightarrow> Inl e | Inr v \<Rightarrow> f v)"

section \<open>Layers and the module that owns them\<close>

text \<open>
  A layer is known by its hyper-parameters, as the notebook prints them:
  \<^verbatim>\<open>Conv2d(1, 6, kernel_size=(5, 5), stride=(1, 1))\<close>,
  \<^verbatim>\<open>Linear(in_features=400, out_features=120, bias=True)\<close>.
  \<^verbatim>\<open>nn.Conv2d(1, 6, 5)\<close> gives a single number for a square kernel; the library
  stores the pair.
\<close>

datatype layer = Conv2d nat nat "nat \<times> nat" | Linear nat nat

definition nn_Conv2d :: "nat \<Rightarrow> nat \<Rightarrow> nat \<Rightarrow> layer" where
  "nn_Conv2d in_channels out_channels kernel_size =
     Conv2d in_channels out_channels (kernel_size, kernel_size)"

definition nn_Linear :: "nat \<Rightarrow> nat \<Rightarrow> layer" where
  "nn_Linear in_features out_features = Linear in_features out_features"

text \<open>
  \<^verbatim>\<open>nn.Module\<close> keeps its sub-modules in an ordered dictionary: assigning a layer to
  an attribute of \<open>self\<close> replaces the entry of that name or appends a new one, and
  reading the attribute looks the name up.
\<close>

type_synonym module = "(string \<times> layer) list"

fun setattr :: "module \<Rightarrow> string \<Rightarrow> layer \<Rightarrow> module" where
  "setattr [] name l = [(name, l)]"
| "setattr ((k, v) # ms) name l =
     (if k = name then (k, l) # ms else (k, v) # setattr ms name l)"

definition getattr :: "module \<Rightarrow> string \<Rightarrow> error + layer" where
  "getattr self name =
     (case map_of self name of None \<Rightarrow> Inl AttributeError | Some l \<Rightarrow> Inr l)"

text \<open>
  \<^verbatim>\<open>
  def __init__(self):
      super(Net, self).__init__()
      self.conv1 = nn.Conv2d(1, 6, 5)
      self.conv2 = nn.Conv2d(6, 16, 5)
      self.fc1 = nn.Linear(16 * 5 * 5, 120)
      self.fc2 = nn.Linear(120, 84)
      self.fc3 = nn.Linear(84, 10)
  \<close>
\<close>

definition Net_init :: module where
  "Net_init =
     (let self = [];
          self = setattr self ''conv1'' (nn_Conv2d 1 6 5);
          self = setattr self ''conv2'' (nn_Conv2d 6 16 5);
          self = setattr self ''fc1'' (nn_Linear (16 * 5 * 5) 120);
          self = setattr self ''fc2'' (nn_Linear 120 84);
          self = setattr self ''fc3'' (nn_Linear 84 10)
      in self)"

section \<open>Variables: a size and the history of the operations that made them\<close>

text \<open>
  An \<^verbatim>\<open>autograd.Variable\<close> wraps a tensor and records the operations applied to
  it; the notebook prints that history for the loss as
  \<^verbatim>\<open>input -> conv2d -> relu -> maxpool2d -> conv2d -> relu -> maxpool2d -> view
  -> linear -> relu -> linear -> relu -> linear -> MSELoss -> loss\<close>.
  The numbers inside an activation are computed by the library (in floating point) and are
  not modelled: a variable is its size (\<^verbatim>\<open>x.size()\<close>, field \<open>shape\<close>) and its
  history (field \<open>grad_fn\<close>, oldest operation first). The node of a layer
  (\<open>conv2d\<close> or \<open>linear\<close>, according to the layer) keeps the attribute name under
  which the module holds that layer: the name stands for the layer object, whose weight
  and bias are the leaves the history refers to.
\<close>

datatype node =
    LayerFn string layer
  | ReluFn
  | MaxPool2dFn "nat \<times> nat"
  | ViewFn "nat list"
  | MSELossFn

record variable =
  shape :: "nat list"
  grad_fn :: "node list"

subsection \<open>The library's size rules\<close>

text \<open>
  The library is outside the repository; its operations are modelled by the size rules
  it documents, which the notebooks' printed outputs confirm
  (a \<open>1x1x32x32\<close> input gives a \<open>1x10\<close> output; \<^verbatim>\<open>view(-1, 8)\<close> of a \<open>4x4\<close>
  tensor has size \<open>[2, 8]\<close>).
  \<^item> A convolution with stride 1 and no padding takes \<open>N x C_in x H x W\<close> to
    \<open>N x C_out x (H - kh + 1) x (W - kw + 1)\<close>.
  \<^item> Max pooling with a \<open>kh x kw\<close> window (the stride is the window) takes
    \<open>N x C x H x W\<close> to \<open>N x C x ((H - kh) div kh + 1) x ((W - kw) div kw + 1)\<close>.
  \<^item> A linear layer replaces the last dimension \<open>in_features\<close> by \<open>out_features\<close>.
  Any other size is refused with a \<open>RuntimeError\<close>.
\<close>

fun conv2d_size :: "nat \<Rightarrow> nat \<Rightarrow> nat \<times> nat \<Rightarrow> nat list \<Rightarrow> error + nat list" where
  "conv2d_size cin cout (kh, kw) [n, c, h, w] =
     (if c = cin \<and> 0 < kh \<and> 0 < kw \<and> kh \<le> h \<and> kw \<le> w
      then Inr [n, cout, h - kh + 1, w - kw + 1]
      else Inl RuntimeError)"
| "conv2d_size cin cout k sz = Inl RuntimeError"

fun max_pool2d_size :: "nat \<times> nat \<Rightarrow> nat list \<Rightarrow> error + nat list" where
  "max_pool2d_size (kh, kw) [n, c, h, w] =
     (if 0 < kh \<and> 0 < kw \<and> kh \<le> h \<and> kw \<le> w
      then Inr [n, c, (h - kh) div kh + 1, (w - kw) div kw + 1]
      else Inl RuntimeError)"
| "max_pool2d_size k sz = Inl RuntimeError"

definition linear_size :: "nat \<Rightarrow> nat \<Rightarrow> nat list \<Rightarrow> error + nat list" where
  "linear_size fin fout sz =
     (if sz \<noteq> [] \<and> last sz = fin then Inr (butlast sz @ [fout]) else Inl RuntimeError)"

text \<open>
  \<^verbatim>\<open>x.view(d1, ..., dk)\<close>: the new size must hold as many elements as the old one;
  one dimension may be \<open>-1\<close> and is then inferred from the others.
\<close>

definition view_size :: "nat \<Rightarrow> int list \<Rightarrow> error + nat list" where
  "view_size numel args =
     (if \<exists>d \<in> set args. d < - 1 then Inl RuntimeError
      else if count_list args (- 1) = 0 then
        (if prod_list (map nat args) = numel then Inr (map nat args) else Inl RuntimeError)
      else if count_list args (- 1) = 1 then
        (let known = prod_list (map nat (filter (\<lambda>d. d \<noteq> - 1) args)) in
         if 0 < known \<and> numel mod known = 0
         then Inr (map (\<lambda>d. if d = - 1 then numel div known else nat d) args)
         else Inl RuntimeError)
      else Inl RuntimeError)"

subsection \<open>The library's operations on variables\<close>

text \<open>
  Calling a layer (\<^verbatim>\<open>self.conv1(x)\<close> once the attribute \<open>name\<close> is read).
\<close>

fun call :: "string \<Rightarrow> layer \<Rightarrow> variable \<Rightarrow> error + variable" where
  "call name (Conv2d cin cout k) x =
     ebind (conv2d_size cin cout k (shape x))
       (\<lambda>sz. Inr \<lparr>shape = sz, grad_fn = grad_fn x @ [LayerFn name (Conv2d cin cout k)]\<rparr>)"
| "call name (Linear fin fout) x =
     ebind (linear_size fin fout (shape x))
       (\<lambda>sz. Inr \<lparr>shape = sz, grad_fn = grad_fn x @ [LayerFn name (Linear fin fout)]\<rparr>)"

definition relu :: "variable \<Rightarrow> variable" where
  "relu x = \<lparr>shape = shape x, grad_fn = grad_fn x @ [ReluFn]\<rparr>"

text \<open>
  The window of \<^verbatim>\<open>F.max_pool2d\<close> is a pair or, for a square window, a single number
  (the notebook uses both forms).
\<close>

datatype window = Square nat | Window nat nat

fun pair_of :: "window \<Rightarrow> nat \<times> nat" where
  "pair_of (Square k) = (k, k)"
| "pair_of (Window kh kw) = (kh, kw)"

definition max_pool2d :: "variable \<Rightarrow> window \<Rightarrow> error + variable" where
  "max_pool2d x k =
     ebind (max_pool2d_size (pair_of k) (shape x))
       (\<lambda>sz. Inr \<lparr>shape = sz, grad_fn = grad_fn x @ [MaxPool2dFn (pair_of k)]\<rparr>)"

definition view :: "variable \<Rightarrow> int list \<Rightarrow> error + variable" where
  "view x args =
     ebind (view_size (prod_list (shape x)) args)
       (\<lambda>sz. Inr \<lparr>shape = sz, grad_fn = grad_fn x @ [ViewFn sz]\<rparr>)"

section \<open>The network of the notebook\<close>

text \<open>
  \<^verbatim>\<open>
  def num_flat_features(self, x):
      size = x.size()[1:]   # All dimensions except the batch dimension
      num_features = 1
      for s in size:
          num_features *= s
      return num_features
  \<close>
  The slice \<open>[1:]\<close> of an empty tuple is the empty tuple (no exception).
\<close>

fun num_flat_features_loop :: "nat list \<Rightarrow> nat \<Rightarrow> nat" where
  "num_flat_features_loop [] num_features = num_features"
| "num_flat_features_loop (s # sizes) num_features =
     num_flat_features_loop sizes (num_features * s)"

definition num_flat_features :: "variable \<Rightarrow> nat" where
  "num_flat_features x = (let sizes = drop 1 (shape x) in num_flat_features_loop sizes 1)"

text \<open>\<^verbatim>\<open>self.name(x)\<close>: read the attribute, then call the layer.\<close>

definition module_call :: "module \<Rightarrow> string \<Rightarrow> variable \<Rightarrow> error + variable" where
  "module_call self name x = ebind (getattr self name) (\<lambda>l. call name l x)"

text \<open>
  \<^verbatim>\<open>
  def forward(self, x):
      x = F.max_pool2d(F.relu(self.conv1(x)), (2, 2))
      x = F.max_pool2d(F.relu(self.conv2(x)), 2)
      x = x.view(-1, self.num_flat_features(x))
      x = F.relu(self.fc1(x))
      x = F.relu(self.fc2(x))
      x = self.fc3(x)
      return x
  \<close>
\<close>

definition forward :: "module \<Rightarrow> variable \<Rightarrow> error + variable" where
  "forward self x =
     ebind (module_call self ''conv1'' x) (\<lambda>c1.
     ebind (max_pool2d (relu c1) (Window 2 2)) (\<lambda>x.
     ebind (module_call self ''conv2'' x) (\<lambda>c2.
     ebind (max_pool2d (relu c2) (Square 2)) (\<lambda>x.
     ebind (view x [- 1, int (num_flat_features x)]) (\<lambda>x.
     ebind (module_call self ''fc1'' x) (\<lambda>f1. let x = relu f1 in
     ebind (module_call self ''fc2'' x) (\<lambda>f2. let x = relu f2 in
     ebind (module_call self ''fc3'' x) (\<lambda>x.
     Inr x))))))))"

text \<open>
  The operations of \<open>forward\<close> written as a sequence, to compare \<open>forward\<close> with:
  \<open>conv1\<close>, ReLU, 2x2 max pooling, \<open>conv2\<close>, ReLU, 2x2 max pooling, flattening,
  \<open>fc1\<close>, ReLU, \<open>fc2\<close>, ReLU, \<open>fc3\<close>. Each step takes the result of the one before,
  and the first step that fails ends the sequence with its error.
\<close>

fun chain :: "('a \<Rightarrow> error + 'a) list \<Rightarrow> 'a \<Rightarrow> error + 'a" where
  "chain [] x = Inr x"
| "chain (f # fs) x = ebind (f x) (chain fs)"

definition forward_steps :: "module \<Rightarrow> (variable \<Rightarrow> error + variable) list" where
  "forward_steps self =
     [module_call self ''conv1'', \<lambda>x. Inr (relu x), \<lambda>x. max_pool2d x (Window 2 2),
      module_call self ''conv2'', \<lambda>x. Inr (relu x), \<lambda>x. max_pool2d x (Square 2),
      \<lambda>x. view x [- 1, int (num_flat_features x)],
      module_call self ''fc1'', \<lambda>x. Inr (relu x),
      module_call self ''fc2'', \<lambda>x. Inr (relu x),
      module_call self ''fc3'']"

section \<open>Parameters and their update\<close>

text \<open>
  Every layer owns a weight and a bias. \<^verbatim>\<open>net.parameters()\<close> yields them layer by
  layer in the order the layers were registered, the weight first (the notebook prints 10
  for their number and the size of \<open>conv1\<close>'s weight for the first). A parameter is
  referred to by its layer's name and its kind; the session's store gives each parameter
  its value \<open>data\<close> (the elements, flattened; exact real numbers stand for the library's
  floating-point numbers) and its gradient buffer \<open>grad\<close>, which is \<open>None\<close> until a
  backward pass fills it.
\<close>

datatype pkind = Weight | Bias

type_synonym pref = "string \<times> pkind"

record param =
  data :: "real list"
  grad :: "real list option"

type_synonym store = "pref \<Rightarrow> param"

definition parameters :: "module \<Rightarrow> pref list" where
  "parameters self = concat (map (\<lambda>(name, l). [(name, Weight), (name, Bias)]) self)"

text \<open>
  Element-wise arithmetic of the library. The library keeps \<^verbatim>\<open>p.grad\<close> of the size of
  \<^verbatim>\<open>p.data\<close>; operands of different sizes are refused.
\<close>

definition mul :: "real list \<Rightarrow> real \<Rightarrow> real list" where
  "mul t c = map (\<lambda>v. v * c) t"

definition sub_inplace :: "real list \<Rightarrow> real list \<Rightarrow> error + real list" where
  "sub_inplace a b =
     (if length a = length b then Inr (map2 (\<lambda>v w. v - w) a b) else Inl RuntimeError)"


text \<open>
  \<^verbatim>\<open>
  learning_rate = 0.01
  for f in net.parameters():
      f.data.sub_(f.grad.data * learning_rate)
  \<close>
  \<^verbatim>\<open>f.grad.data\<close> raises \<open>AttributeError\<close> when \<^verbatim>\<open>f.grad\<close> is \<open>None\<close>. The
  product is a new tensor; \<^verbatim>\<open>sub_\<close> writes into \<^verbatim>\<open>f.data\<close>. An exception ends
  the loop and leaves the parameters updated so far as they are: the result is the store
  together with the exception, if any.
\<close>

definition learning_rate :: real where
  "learning_rate = 0.01"

fun update_loop :: "pref list \<Rightarrow> store \<Rightarrow> store \<times> error option" where
  "update_loop [] s = (s, None)"
| "update_loop (f # fs) s =
     (case grad (s f) of
        None \<Rightarrow> (s, Some AttributeError)
      | Some g \<Rightarrow>
          (case sub_inplace (data (s f)) (mul g learning_rate) of
             Inl e \<Rightarrow> (s, Some e)
           | Inr d \<Rightarrow> update_loop fs (s(f := (s f)\<lparr>data := d\<rparr>))))"

definition manual_update :: "module \<Rightarrow> store \<Rightarrow> store \<times> error option" where
  "manual_update net s = update_loop (parameters net) s"

section \<open>Loss, backward pass and optimiser\<close>














section \<open>The CUDA cell of the tensor notebook\<close>







section \<open>Normalising and showing the CIFAR10 images\<close>





section \<open>Notions used to state the properties\<close>

text \<open>
  The history that one forward pass of the network adds to a batch of \<open>n\<close> images, in the
  order of the notebook's own picture of the graph: \<open>conv1\<close>, ReLU, 2x2 max pooling,
  \<open>conv2\<close>, ReLU, 2x2 max pooling, the view as \<open>n x 400\<close>, \<open>fc1\<close>, ReLU, \<open>fc2\<close>,
  ReLU, \<open>fc3\<close>.
\<close>

definition forward_history :: "nat \<Rightarrow> node list" where
  "forward_history n =
     [LayerFn ''conv1'' (Conv2d 1 6 (5, 5)), ReluFn, MaxPool2dFn (2, 2),
      LayerFn ''conv2'' (Conv2d 6 16 (5, 5)), ReluFn, MaxPool2dFn (2, 2),
      ViewFn [n, 400], LayerFn ''fc1'' (Linear 400 120), ReluFn,
      LayerFn ''fc2'' (Linear 120 84), ReluFn, LayerFn ''fc3'' (Linear 84 10)]"





section \<open>Properties\<close>

subsection \<open>Sequencing\<close>

lemma ebind_simps [simp]: "ebind (Inl e) f = Inl e" "ebind (Inr v) f = f v"
  by (simp_all add: ebind_def)

lemma ebind_Inr: "ebind m Inr = m"
  by (cases m) simp_all

lemma chain_fun: "chain [] = Inr" "chain (f # fs) = (\<lambda>x. ebind (f x) (chain fs))"
  by (rule ext, simp)+

lemma chain_append: "chain (fs @ gs) x = ebind (chain fs x) (chain gs)"
  by (induction fs arbitrary: x) (simp_all add: ebind_def split: sum.splits)


subsection \<open>num_flat_features\<close>

lemma num_flat_features_loop_prod:
  "num_flat_features_loop sizes acc = acc * prod_list sizes"
  by (induction sizes arbitrary: acc) (simp_all add: mult.assoc)

text \<open>
  C8. For a tensor with at least one dimension, \<open>num_flat_features\<close> returns the product
  of all dimensions but the first (the batch dimension); for a tensor with exactly one
  dimension that product is empty and the result is 1.
\<close>

theorem num_flat_features_product:
  assumes "shape x \<noteq> []"
  shows "num_flat_features x = prod_list (tl (shape x)) \<and>
         (length (shape x) = 1 \<longrightarrow> num_flat_features x = 1)"
proof (intro conjI impI)
  show "num_flat_features x = prod_list (tl (shape x))"
    by (simp add: num_flat_features_def num_flat_features_loop_prod drop_Suc)
  assume "length (shape x) = 1"
  then obtain n where "shape x = [n]"
    by (cases "shape x") simp_all
  then show "num_flat_features x = 1"
    by (simp add: num_flat_features_def)
qed

theorem num_flat_features_product_witness:
  "num_flat_features \<lparr>shape = [4, 16, 5, 5], grad_fn = []\<rparr> = 400 \<and>
   num_flat_features \<lparr>shape = [7], grad_fn = []\<rparr> = 1"
  using num_flat_features_product [of "\<lparr>shape = [4, 16, 5, 5], grad_fn = []\<rparr>"]
    num_flat_features_product [of "\<lparr>shape = [7], grad_fn = []\<rparr>"]
  by simp

subsection \<open>The layers of the network\<close>

text \<open>
  C3. The model object built by \<open>Net.__init__\<close> holds exactly five named sub-layers, in
  this order: \<open>conv1\<close> (1 input channel, 6 output channels, 5x5 kernel), \<open>conv2\<close>
  (6 input channels, 16 output channels, 5x5 kernel), \<open>fc1\<close> (400 to 120), \<open>fc2\<close>
  (120 to 84) and \<open>fc3\<close> (84 to 10); there is no other layer.
\<close>

theorem Net_init_layers:
  "Net_init =
     [(''conv1'', Conv2d 1 6 (5, 5)), (''conv2'', Conv2d 6 16 (5, 5)),
      (''fc1'', Linear 400 120), (''fc2'', Linear 120 84), (''fc3'', Linear 84 10)]"
  by (simp add: Net_init_def nn_Conv2d_def nn_Linear_def)

theorem Net_init_layers_witness:
  "length Net_init = 5 \<and> distinct (map fst Net_init) \<and>
   getattr Net_init ''fc1'' = Inr (Linear 400 120) \<and>
   getattr Net_init ''conv3'' = Inl AttributeError"
  by (simp add: Net_init_layers getattr_def)

lemma getattr_Net:
  "getattr Net_init ''conv1'' = Inr (Conv2d 1 6 (5, 5))"
  "getattr Net_init ''conv2'' = Inr (Conv2d 6 16 (5, 5))"
  "getattr Net_init ''fc1'' = Inr (Linear 400 120)"
  "getattr Net_init ''fc2'' = Inr (Linear 120 84)"
  "getattr Net_init ''fc3'' = Inr (Linear 84 10)"
  by (simp_all add: Net_init_def nn_Conv2d_def nn_Linear_def getattr_def)

lemma parameters_Net:
  "parameters Net_init =
     [(''conv1'', Weight), (''conv1'', Bias), (''conv2'', Weight), (''conv2'', Bias),
      (''fc1'', Weight), (''fc1'', Bias), (''fc2'', Weight), (''fc2'', Bias),
      (''fc3'', Weight), (''fc3'', Bias)]"
  by (simp add: parameters_def Net_init_def nn_Conv2d_def nn_Linear_def)

lemma distinct_parameters_Net: "distinct (parameters Net_init)"
  by (simp add: parameters_Net)

subsection \<open>The forward pass\<close>

lemma forward_chain: "forward self x = chain (forward_steps self) x"
  by (simp add: forward_def forward_steps_def chain_fun ebind_Inr Let_def)

lemma conv_stack:
  assumes "shape x = [n, 1, 32, 32]"
  shows "chain (take 6 (forward_steps Net_init)) x =
     Inr \<lparr>shape = [n, 16, 5, 5],
          grad_fn = grad_fn x @
            [LayerFn ''conv1'' (Conv2d 1 6 (5, 5)), ReluFn, MaxPool2dFn (2, 2),
             LayerFn ''conv2'' (Conv2d 6 16 (5, 5)), ReluFn, MaxPool2dFn (2, 2)]\<rparr>"
  using assms
  by (simp add: forward_steps_def module_call_def getattr_Net relu_def max_pool2d_def)

lemma view_flat:
  "view \<lparr>shape = [n, 16, 5, 5], grad_fn = h\<rparr> [- 1, 400] =
     Inr \<lparr>shape = [n, 400], grad_fn = h @ [ViewFn [n, 400]]\<rparr>"
  by (simp add: view_def view_size_def)

lemma fc_stack:
  "chain (drop 6 (forward_steps Net_init)) \<lparr>shape = [n, 16, 5, 5], grad_fn = h\<rparr> =
     Inr \<lparr>shape = [n, 10],
          grad_fn = h @ [ViewFn [n, 400], LayerFn ''fc1'' (Linear 400 120), ReluFn,
             LayerFn ''fc2'' (Linear 120 84), ReluFn, LayerFn ''fc3'' (Linear 84 10)]\<rparr>"
  by (simp add: forward_steps_def module_call_def getattr_Net relu_def view_flat
      num_flat_features_def linear_size_def)

lemma forward_Net:
  assumes "shape x = [n, 1, 32, 32]"
  shows "forward Net_init x = Inr \<lparr>shape = [n, 10], grad_fn = grad_fn x @ forward_history n\<rparr>"
proof -
  have "forward Net_init x =
      chain (take 6 (forward_steps Net_init) @ drop 6 (forward_steps Net_init)) x"
    by (simp only: append_take_drop_id forward_chain)
  also have "\<dots> = ebind (chain (take 6 (forward_steps Net_init)) x)
      (chain (drop 6 (forward_steps Net_init)))"
    by (rule chain_append)
  finally show ?thesis
    by (simp add: conv_stack [OF assms] fc_stack forward_history_def)
qed

text \<open>
  C2. On every input of the expected batched size (\<open>n\<close> images of one channel and 32 x 32
  pixels) \<open>Net.forward\<close> is the sequence \<open>conv1\<close>, ReLU, 2x2 max pooling, \<open>conv2\<close>, ReLU,
  2x2 max pooling, flattening to \<open>(n, num_flat_features)\<close>, \<open>fc1\<close>, ReLU, \<open>fc2\<close>, ReLU,
  \<open>fc3\<close>, run in this order: it returns what that sequence returns, and the history of
  the result is the history of the input followed by exactly these twelve operations, the
  call of \<open>fc3\<close> being the last.
\<close>

theorem forward_sequence:
  assumes "shape x = [n, 1, 32, 32]"
  shows "forward Net_init x = chain (forward_steps Net_init) x \<and>
         forward Net_init x =
           Inr \<lparr>shape = [n, 10],
                grad_fn = grad_fn x @
                  [LayerFn ''conv1'' (Conv2d 1 6 (5, 5)), ReluFn, MaxPool2dFn (2, 2),
                   LayerFn ''conv2'' (Conv2d 6 16 (5, 5)), ReluFn, MaxPool2dFn (2, 2),
                   ViewFn [n, 400], LayerFn ''fc1'' (Linear 400 120), ReluFn,
                   LayerFn ''fc2'' (Linear 120 84), ReluFn,
                   LayerFn ''fc3'' (Linear 84 10)]\<rparr>"
  using forward_Net [OF assms] by (simp add: forward_chain forward_history_def)

theorem forward_sequence_witness:
  "forward Net_init \<lparr>shape = [1, 1, 32, 32], grad_fn = []\<rparr> =
     Inr \<lparr>shape = [1, 10], grad_fn = forward_history 1\<rparr>"
proof -
  have "shape \<lparr>shape = [1, 1, 32, 32], grad_fn = []\<rparr> = [1, 1, 32, 32]"
    by simp
  from forward_sequence [OF this, THEN conjunct2] show ?thesis
    by (simp add: forward_history_def)
qed

text \<open>
  C4. The sizes of connected layers fit: on \<open>n\<close> images of one channel and 32 x 32 pixels
  the first six steps (\<open>conv1\<close>, ReLU, pooling, \<open>conv2\<close>, ReLU, pooling) return a variable
  that flattens to exactly 400 features, which is the input size \<open>16 * 5 * 5\<close> of \<open>fc1\<close>;
  the output size 120 of \<open>fc1\<close> is the input size of \<open>fc2\<close>, the output size 84 of
  \<open>fc2\<close> is the input size of \<open>fc3\<close>, and the whole forward pass returns (a variable of
  size \<open>n x 10\<close>).
\<close>

theorem layer_sizes_fit:
  assumes "shape x = [n, 1, 32, 32]"
  shows "\<exists>y i1 o1 i2 o2 i3 o3 z.
           chain (take 6 (forward_steps Net_init)) x = Inr y \<and>
           shape y = [n, 16, 5, 5] \<and> num_flat_features y = 400 \<and>
           getattr Net_init ''fc1'' = Inr (Linear i1 o1) \<and>
           getattr Net_init ''fc2'' = Inr (Linear i2 o2) \<and>
           getattr Net_init ''fc3'' = Inr (Linear i3 o3) \<and>
           i1 = num_flat_features y \<and> i1 = 16 * 5 * 5 \<and>
           o1 = 120 \<and> i2 = o1 \<and> o2 = 84 \<and> i3 = o2 \<and>
           forward Net_init x = Inr z \<and> shape z = [n, 10]"
  using conv_stack [OF assms] forward_Net [OF assms]
  by (simp add: getattr_Net num_flat_features_def)

theorem layer_sizes_fit_witness:
  "\<exists>y z. chain (take 6 (forward_steps Net_init)) \<lparr>shape = [4, 1, 32, 32], grad_fn = []\<rparr> = Inr y \<and>
         num_flat_features y = 400 \<and>
         forward Net_init \<lparr>shape = [4, 1, 32, 32], grad_fn = []\<rparr> = Inr z \<and> shape z = [4, 10]"
  using layer_sizes_fit [of "\<lparr>shape = [4, 1, 32, 32], grad_fn = []\<rparr>" 4]
  by auto

subsection \<open>The manual update of the weights\<close>

lemma sub_inplace_mul:
  "length g = length w \<Longrightarrow> sub_inplace w (mul g c) = Inr (map2 (\<lambda>v d. v - d * c) w g)"
  by (simp add: sub_inplace_def mul_def zip_map2 map_zip_map2 case_prod_beta)

text \<open>Whatever the loop does and however it ends, it writes nothing but \<open>data\<close>.\<close>

lemma update_loop_frame:
  "(fst (update_loop fs s) r)\<lparr>data := data (s r)\<rparr> = s r"
proof (induction fs arbitrary: s)
  case Nil
  show ?case by simp
next
  case (Cons f fs)
  show ?case
  proof (cases "grad (s f)")
    case None
    then show ?thesis by simp
  next
    case (Some g)
    show ?thesis
    proof (cases "sub_inplace (data (s f)) (mul g learning_rate)")
      case (Inl e)
      with Some show ?thesis by simp
    next
      case (Inr d)
      define s' where "s' = s(f := (s f)\<lparr>data := d\<rparr>)"
      have restore: "(s' r)\<lparr>data := data (s r)\<rparr> = s r"
        by (simp add: s'_def)
      have "(fst (update_loop fs s') r)\<lparr>data := data (s' r)\<rparr> = s' r"
        by (rule Cons.IH)
      then have "(fst (update_loop fs s') r)\<lparr>data := data (s r)\<rparr> =
          (s' r)\<lparr>data := data (s r)\<rparr>"
        by (metis param.update_convs(1) param.surjective)
      with restore have "(fst (update_loop fs s') r)\<lparr>data := data (s r)\<rparr> = s r"
        by simp
      then show ?thesis
        using Some Inr by (simp add: s'_def)
    qed
  qed
qed

lemma update_loop_outside:
  "r \<notin> set fs \<Longrightarrow> fst (update_loop fs s) r = s r"
  by (induction fs arbitrary: s) (auto split: option.splits sum.splits)

text \<open>
  On a list without repetition, whose parameters all have a gradient of their own size,
  the loop ends without exception and has rewritten every value once.
\<close>

lemma update_loop_ok:
  assumes "distinct fs"
    and "\<forall>f \<in> set fs. \<exists>g. grad (s f) = Some g \<and> length g = length (data (s f))"
  shows "snd (update_loop fs s) = None \<and>
         (\<forall>f \<in> set fs. \<forall>g. grad (s f) = Some g \<longrightarrow>
            data (fst (update_loop fs s) f) =
              map2 (\<lambda>v d. v - d * learning_rate) (data (s f)) g)"
  using assms
proof (induction fs arbitrary: s)
  case Nil
  show ?case by simp
next
  case (Cons f fs)
  from Cons.prems obtain g where g: "grad (s f) = Some g" "length g = length (data (s f))"
    by auto
  let ?d = "map2 (\<lambda>v d. v - d * learning_rate) (data (s f)) g"
  let ?s = "s(f := (s f)\<lparr>data := ?d\<rparr>)"
  have turn: "update_loop (f # fs) s = update_loop fs ?s"
    using g by (simp add: sub_inplace_mul)
  have f_out: "f \<notin> set fs" and dist: "distinct fs"
    using Cons.prems(1) by simp_all
  have pre: "\<forall>f' \<in> set fs. \<exists>g'. grad (?s f') = Some g' \<and> length g' = length (data (?s f'))"
    using Cons.prems(2) f_out by auto
  have IH: "snd (update_loop fs ?s) = None \<and>
         (\<forall>f' \<in> set fs. \<forall>g'. grad (?s f') = Some g' \<longrightarrow>
            data (fst (update_loop fs ?s) f') =
              map2 (\<lambda>v d. v - d * learning_rate) (data (?s f')) g')"
    by (rule Cons.IH [OF dist pre])
  have here: "fst (update_loop fs ?s) f = ?s f"
    by (rule update_loop_outside [OF f_out])
  have "data (fst (update_loop fs ?s) f') =
          map2 (\<lambda>v d. v - d * learning_rate) (data (s f')) g'"
    if mem: "f' \<in> set (f # fs)" and g': "grad (s f') = Some g'" for f' g'
  proof (cases "f' = f")
    case True
    with here g g' show ?thesis by simp
  next
    case False
    with mem have "f' \<in> set fs" by simp
    moreover from False g' have "grad (?s f') = Some g'" by simp
    ultimately have "data (fst (update_loop fs ?s) f') =
        map2 (\<lambda>v d. v - d * learning_rate) (data (?s f')) g'"
      using IH by blast
    with False show ?thesis by simp
  qed
  with IH show ?case
    unfolding turn by blast
qed

text \<open>
  C1. When every parameter of the network has a gradient (of the size of its value), the
  manual update ends without exception and has replaced the value of every parameter
  \<open>f\<close> of \<open>net.parameters()\<close>, element by element, by the old value minus the gradient
  times the learning rate, which is 0.01. \<open>net.parameters()\<close> lists ten parameters, none
  of them twice, so each is updated exactly once.
\<close>

theorem manual_update_rule:
  assumes "\<forall>f \<in> set (parameters Net_init).
             \<exists>g. grad (s f) = Some g \<and> length g = length (data (s f))"
  shows "snd (manual_update Net_init s) = None \<and>
         (\<forall>f \<in> set (parameters Net_init). \<forall>g. grad (s f) = Some g \<longrightarrow>
            data (fst (manual_update Net_init s) f) =
              map2 (\<lambda>old d. old - d * learning_rate) (data (s f)) g) \<and>
         learning_rate = 0.01 \<and>
         length (parameters Net_init) = 10 \<and> distinct (parameters Net_init)"
  using update_loop_ok [OF distinct_parameters_Net assms]
  by (simp add: manual_update_def learning_rate_def distinct_parameters_Net)
    (simp add: parameters_Net)

theorem manual_update_rule_witness:
  "snd (manual_update Net_init (\<lambda>r. \<lparr>data = [1, 2], grad = Some [10, 20]\<rparr>)) = None \<and>
   data (fst (manual_update Net_init (\<lambda>r. \<lparr>data = [1, 2], grad = Some [10, 20]\<rparr>))
           (''fc1'', Bias)) = [0.9, 1.8]"
  using manual_update_rule [of "\<lambda>r. \<lparr>data = [1, 2], grad = Some [10, 20]\<rparr>"]
  by (simp add: parameters_Net)

text \<open>
  C10. The manual update writes only the values of the parameters: whatever the store
  and however the loop ends, every parameter is afterwards what it was before but for its
  \<open>data\<close>; in particular its gradient buffer is unchanged, and a parameter that is not
  among \<open>net.parameters()\<close> is not touched at all. (The module itself, with its layers,
  is read by the loop and is not part of what it returns.)
\<close>

theorem manual_update_frame:
  "(fst (manual_update net s) r)\<lparr>data := data (s r)\<rparr> = s r \<and>
   grad (fst (manual_update net s) r) = grad (s r) \<and>
   (r \<notin> set (parameters net) \<longrightarrow> fst (manual_update net s) r = s r)"
proof -
  have frame: "(fst (manual_update net s) r)\<lparr>data := data (s r)\<rparr> = s r"
    unfolding manual_update_def by (rule update_loop_frame)
  have "grad ((fst (manual_update net s) r)\<lparr>data := data (s r)\<rparr>) =
        grad (fst (manual_update net s) r)"
    by simp
  with frame have "grad (fst (manual_update net s) r) = grad (s r)"
    by simp
  with frame show ?thesis
    by (simp add: manual_update_def update_loop_outside)
qed

theorem manual_update_frame_witness:
  "grad (fst (manual_update Net_init (\<lambda>r. \<lparr>data = [1, 2], grad = Some [10, 20]\<rparr>))
           (''conv2'', Weight)) = Some [10, 20] \<and>
   fst (manual_update Net_init (\<lambda>r. \<lparr>data = [1, 2], grad = Some [10, 20]\<rparr>))
     (''fc4'', Bias) = \<lparr>data = [1, 2], grad = Some [10, 20]\<rparr>"
  using manual_update_frame [where net = Net_init
        and s = "\<lambda>r. \<lparr>data = [1, 2], grad = Some [10, 20]\<rparr>" and r = "(''conv2'', Weight)"]
    manual_update_frame [where net = Net_init
        and s = "\<lambda>r. \<lparr>data = [1, 2], grad = Some [10, 20]\<rparr>" and r = "(''fc4'', Bias)"]
  by (simp add: parameters_Net)

subsection \<open>One training step\<close>











subsection \<open>Failures\<close>






subsection \<open>Normalising and unnormalising\<close>




end
